theory Spec2Isabelle
  imports Complex_Main
begin

section \<open>Token-bucket rate limiter of mistral-ratelimit\<close>

text \<open>
  A shallow embedding of \<^verbatim>\<open>rate_limiter.py\<close>, \<^verbatim>\<open>config.py\<close>,
  \<^verbatim>\<open>token_counter.py\<close> and the accounting helpers of \<^verbatim>\<open>client.py\<close>.

  Conventions of the embedding:
  \<^item> Python floats are idealised as \<open>real\<close>: rounding is not modelled, and there is
    no NaN. A statement below that would not survive the rounding of IEEE doubles says
    so; in particular no lower bound on \<open>available\<close> after the debit that follows a
    wait is claimed for the program.
  \<^item> \<^verbatim>\<open>time.monotonic()\<close> reads the field \<open>clock\<close> of the limiter; the clock
    advances by exactly \<open>w\<close> in \<^verbatim>\<open>time.sleep(w)\<close> and by an arbitrary non-negative
    amount between two operations (operation \<open>Tick\<close> below). No time passes between
    two statements of one method.
  \<^item> A raised exception is the \<open>Inl\<close> branch of a sum type.
  \<^item> The lock is not modelled: every method runs to its end without interleaving.
\<close>

subsection \<open>Exceptions\<close>

datatype py_error =
    ValueError string
  | ZeroDivisionError
  | AttributeError string

subsection \<open>rate\_limiter.py: bucket state and refill\<close>

record RateLimitState =
  available :: real
  max_tokens :: real
  refill_rate :: real
  last_update :: real

record limiter =
  request_bucket :: RateLimitState
  token_bucket :: RateLimitState
  clock :: real

text \<open>\<^verbatim>\<open>RateLimiter.__init__\<close> (and, line for line, \<^verbatim>\<open>AsyncRateLimiter.__init__\<close>).
  The body contains no \<^verbatim>\<open>raise\<close> and no check of its arguments; the result type is
  a sum only so that "construction fails" can be stated. \<open>now\<close> is the value of the
  monotonic clock at construction.\<close>

definition RateLimiter_init :: "real \<Rightarrow> real \<Rightarrow> real \<Rightarrow> py_error + limiter" where
  "RateLimiter_init requests_per_second tokens_per_minute now =
     (let tokens_per_second = tokens_per_minute / 60 in
      Inr \<lparr> request_bucket =
              \<lparr> available = requests_per_second,
                max_tokens = requests_per_second,
                refill_rate = requests_per_second,
                last_update = now \<rparr>,
            token_bucket =
              \<lparr> available = tokens_per_minute,
                max_tokens = tokens_per_minute,
                refill_rate = tokens_per_second,
                last_update = now \<rparr>,
            clock = now \<rparr>)"

definition AsyncRateLimiter_init :: "real \<Rightarrow> real \<Rightarrow> real \<Rightarrow> py_error + limiter" where
  "AsyncRateLimiter_init requests_per_second tokens_per_minute now =
     (let tokens_per_second = tokens_per_minute / 60 in
      Inr \<lparr> request_bucket =
              \<lparr> available = requests_per_second,
                max_tokens = requests_per_second,
                refill_rate = requests_per_second,
                last_update = now \<rparr>,
            token_bucket =
              \<lparr> available = tokens_per_minute,
                max_tokens = tokens_per_minute,
                refill_rate = tokens_per_second,
                last_update = now \<rparr>,
            clock = now \<rparr>)"

text \<open>\<^verbatim>\<open>_refill(bucket)\<close>, with the clock reading \<open>now\<close> passed in.\<close>

definition refill :: "real \<Rightarrow> RateLimitState \<Rightarrow> RateLimitState" where
  "refill now bucket =
     (let elapsed = now - last_update bucket;
          new_tokens = elapsed * refill_rate bucket
      in bucket \<lparr> available := min (max_tokens bucket) (available bucket + new_tokens),
                  last_update := now \<rparr>)"

text \<open>\<^verbatim>\<open>time.sleep(w)\<close> on the injected clock.\<close>

definition sleep :: "real \<Rightarrow> limiter \<Rightarrow> limiter" where
  "sleep w l = l \<lparr> clock := clock l + w \<rparr>"

subsection \<open>rate\_limiter.py: acquire and get\_wait\_time\<close>

text \<open>\<^verbatim>\<open>_acquire_request(tokens)\<close>: refill, then either debit and return \<open>0.0\<close>, or
  return the wait and leave the bucket refilled but not debited. The float division
  raises \<^verbatim>\<open>ZeroDivisionError\<close> on a zero refill rate.\<close>

definition acquire_request :: "real \<Rightarrow> limiter \<Rightarrow> py_error + (real \<times> limiter)" where
  "acquire_request tokens l =
     (let b = refill (clock l) (request_bucket l) in
      if available b \<ge> tokens
      then Inr (0, l \<lparr> request_bucket := b \<lparr> available := available b - tokens \<rparr> \<rparr>)
      else let needed = tokens - available b in
           if refill_rate b = 0 then Inl ZeroDivisionError
           else Inr (needed / refill_rate b, l \<lparr> request_bucket := b \<rparr>))"

text \<open>\<^verbatim>\<open>_acquire_token(tokens)\<close>: the same on the token bucket.\<close>

definition acquire_token :: "real \<Rightarrow> limiter \<Rightarrow> py_error + (real \<times> limiter)" where
  "acquire_token tokens l =
     (let b = refill (clock l) (token_bucket l) in
      if available b \<ge> tokens
      then Inr (0, l \<lparr> token_bucket := b \<lparr> available := available b - tokens \<rparr> \<rparr>)
      else let needed = tokens - available b in
           if refill_rate b = 0 then Inl ZeroDivisionError
           else Inr (needed / refill_rate b, l \<lparr> token_bucket := b \<rparr>))"

text \<open>The two blocks \<^verbatim>\<open>if wait > 0: time.sleep(wait); self._refill(bucket);
  bucket.available -= cost\<close> of \<^verbatim>\<open>RateLimiter.acquire\<close>.\<close>

definition wait_request :: "real \<Rightarrow> real \<Rightarrow> limiter \<Rightarrow> limiter" where
  "wait_request wait request_tokens l =
     (if wait > 0 then
        let l1 = sleep wait l;
            b = refill (clock l1) (request_bucket l1)
        in l1 \<lparr> request_bucket := b \<lparr> available := available b - request_tokens \<rparr> \<rparr>
      else l)"

definition wait_token :: "real \<Rightarrow> real \<Rightarrow> limiter \<Rightarrow> limiter" where
  "wait_token wait token_count l =
     (if wait > 0 then
        let l1 = sleep wait l;
            b = refill (clock l1) (token_bucket l1)
        in l1 \<lparr> token_bucket := b \<lparr> available := available b - token_count \<rparr> \<rparr>
      else l)"

text \<open>\<^verbatim>\<open>RateLimiter.acquire(request_tokens, token_count)\<close>: returns \<open>total_wait\<close> and
  the limiter after the call.\<close>

definition acquire :: "real \<Rightarrow> real \<Rightarrow> limiter \<Rightarrow> py_error + (real \<times> limiter)" where
  "acquire request_tokens token_count l =
     (case acquire_request request_tokens l of
        Inl e \<Rightarrow> Inl e
      | Inr (wait, l1) \<Rightarrow>
          let total_wait = 0 + wait;
              l2 = wait_request wait request_tokens l1
          in (case acquire_token token_count l2 of
                Inl e \<Rightarrow> Inl e
              | Inr (wait', l3) \<Rightarrow>
                  let total_wait' = total_wait + wait';
                      l4 = wait_token wait' token_count l3
                  in Inr (total_wait', l4)))"

text \<open>\<^verbatim>\<open>RateLimiter.get_wait_time(request_tokens, token_count)\<close> (the async method has
  the same body).\<close>

definition get_wait_time :: "real \<Rightarrow> real \<Rightarrow> limiter \<Rightarrow> py_error + (real \<times> limiter)" where
  "get_wait_time request_tokens token_count l =
     (let rb = refill (clock l) (request_bucket l);
          tb = refill (clock l) (token_bucket l);
          l' = l \<lparr> request_bucket := rb, token_bucket := tb \<rparr>
      in if available rb < request_tokens \<and> refill_rate rb = 0 then Inl ZeroDivisionError
         else
           let wait_request = (if available rb < request_tokens
                               then (request_tokens - available rb) / refill_rate rb else 0)
           in if available tb < token_count \<and> refill_rate tb = 0 then Inl ZeroDivisionError
              else
                let wait_token = (if available tb < token_count
                                  then (token_count - available tb) / refill_rate tb else 0)
                in Inr (max wait_request wait_token, l'))"

text \<open>\<^verbatim>\<open>AsyncRateLimiter.acquire\<close>: the two branches are written inline, and the
  branch that waits always debits (\<^verbatim>\<open>asyncio.sleep\<close> of a non-positive delay returns
  at once, so the clock moves only for a positive wait).\<close>

definition async_sleep :: "real \<Rightarrow> limiter \<Rightarrow> limiter" where
  "async_sleep w l = (if w > 0 then sleep w l else l)"

definition async_acquire :: "real \<Rightarrow> real \<Rightarrow> limiter \<Rightarrow> py_error + (real \<times> limiter)" where
  "async_acquire request_tokens token_count l =
     (let rb = refill (clock l) (request_bucket l) in
      if available rb < request_tokens \<and> refill_rate rb = 0 then Inl ZeroDivisionError
      else
        let (w1, l1) =
              (if available rb \<ge> request_tokens
               then (0, l \<lparr> request_bucket := rb \<lparr> available := available rb - request_tokens \<rparr> \<rparr>)
               else let needed = request_tokens - available rb;
                        wait_time = needed / refill_rate rb;
                        ls = async_sleep wait_time (l \<lparr> request_bucket := rb \<rparr>);
                        rb' = refill (clock ls) (request_bucket ls)
                    in (wait_time,
                        ls \<lparr> request_bucket := rb' \<lparr> available := available rb' - request_tokens \<rparr> \<rparr>));
            tb = refill (clock l1) (token_bucket l1)
        in if available tb < token_count \<and> refill_rate tb = 0 then Inl ZeroDivisionError
           else
             if available tb \<ge> token_count
             then Inr (0 + w1, l1 \<lparr> token_bucket := tb \<lparr> available := available tb - token_count \<rparr> \<rparr>)
             else let needed = token_count - available tb;
                      wait_time = needed / refill_rate tb;
                      ls = async_sleep wait_time (l1 \<lparr> token_bucket := tb \<rparr>);
                      tb' = refill (clock ls) (token_bucket ls)
                  in Inr (0 + w1 + wait_time,
                          ls \<lparr> token_bucket := tb' \<lparr> available := available tb' - token_count \<rparr> \<rparr>))"

subsection \<open>The two-branch algorithm as the specification words it\<close>

text \<open>One bucket, as section 4.2 of the specification describes it: refill at the
  clock reading \<open>now\<close>; if \<open>available \<ge> cost\<close> debit with wait \<open>0\<close>; otherwise wait
  \<open>(cost - available) / refillRate\<close>, refill again at \<open>now + wait\<close> and debit without
  a second test. The result is the wait and the bucket.\<close>

definition debit :: "real \<Rightarrow> RateLimitState \<Rightarrow> RateLimitState" where
  "debit cost b = b \<lparr> available := available b - cost \<rparr>"

definition spec_bucket_acquire :: "real \<Rightarrow> real \<Rightarrow> RateLimitState \<Rightarrow> real \<times> RateLimitState" where
  "spec_bucket_acquire now cost b =
     (let b1 = refill now b in
      if available b1 \<ge> cost then (0, debit cost b1)
      else let wait = (cost - available b1) / refill_rate b1
           in (wait, debit cost (refill (now + wait) b1)))"

definition bucket_wait :: "real \<Rightarrow> RateLimitState \<Rightarrow> real" where
  "bucket_wait cost b =
     (if available b \<ge> cost then 0 else (cost - available b) / refill_rate b)"

subsection \<open>client.py: refund and usage extraction\<close>

text \<open>\<^verbatim>\<open>_refund_tokens(estimated, actual_tokens)\<close>: one guarded \<^verbatim>\<open>+=\<close> on the token
  bucket of the limiter. \<^verbatim>\<open>_refund_tokens_async\<close> has the same body inside
  \<^verbatim>\<open>async with self._async_rate_limiter._lock\<close>. Neither reads the clock, calls
  \<^verbatim>\<open>_refill\<close> or compares with \<^verbatim>\<open>max_tokens\<close>.\<close>

definition refund_tokens :: "int \<Rightarrow> int \<Rightarrow> limiter \<Rightarrow> limiter" where
  "refund_tokens estimated actual_tokens l =
     (if actual_tokens < estimated
      then l \<lparr> token_bucket := (token_bucket l)
                 \<lparr> available := available (token_bucket l) + real_of_int (estimated - actual_tokens) \<rparr> \<rparr>
      else l)"



text \<open>Responses and stream events, as far as the wrapper looks at them. An object has
  an optional attribute \<^verbatim>\<open>type\<close> and an optional \<^verbatim>\<open>usage\<close>; the usage field is
  \<open>None\<close> when the attribute is missing or \<^verbatim>\<open>None\<close>, \<open>Some None\<close> when it has no
  \<^verbatim>\<open>total_tokens\<close> (or \<^verbatim>\<open>None\<close> there), \<open>Some (Some n)\<close> otherwise. A dictionary
  has no attribute \<^verbatim>\<open>type\<close>; its key \<^verbatim>\<open>usage\<close> is read the same way.\<close>

record py_object =
  obj_type :: "string option"
  obj_usage :: "int option option"

datatype response = Object py_object | Dict "int option option" | Other

text \<open>\<^verbatim>\<open>_extract_usage(response)\<close>; \<^verbatim>\<open>x or 0\<close> maps a missing value to \<open>0\<close>.\<close>

fun total_tokens_or_0 :: "int option option \<Rightarrow> int" where
  "total_tokens_or_0 (Some (Some n)) = n"
| "total_tokens_or_0 _ = 0"

fun extract_usage :: "response \<Rightarrow> int" where
  "extract_usage (Object ob) = total_tokens_or_0 (obj_usage ob)"
| "extract_usage (Dict u) = total_tokens_or_0 u"
| "extract_usage Other = 0"

subsection \<open>client.py: the stream wrapper\<close>

text \<open>An event has an attribute \<^verbatim>\<open>data\<close> or not. The wrapped iterator yields an
  event, raises, or is closed by its consumer before the next event is pulled.\<close>

datatype event = Event "response option"

datatype stream_item = Next_event event | Raise | Close

datatype stream_end = Exhausted | Raised | Closed

text \<open>\<^verbatim>\<open>getattr(data, "type", "")\<close>.\<close>

fun event_type :: "response \<Rightarrow> string" where
  "event_type (Object ob) = (case obj_type ob of None \<Rightarrow> [] | Some ty \<Rightarrow> ty)"
| "event_type _ = []"

text \<open>The body of the \<^verbatim>\<open>for\<close> loop of \<^verbatim>\<open>_process_stream_response\<close>, before the
  \<^verbatim>\<open>yield\<close>.\<close>

fun observe_event :: "event \<Rightarrow> int \<Rightarrow> limiter \<Rightarrow> limiter" where
  "observe_event (Event None) estimated l = l"
| "observe_event (Event (Some data)) estimated l =
     (if event_type data = ''conversation.response.done''
      then refund_tokens estimated (extract_usage data) l
      else l)"

text \<open>\<^verbatim>\<open>_process_stream_response(stream, estimated)\<close>: the events handed on, how the
  iteration ended, and the limiter afterwards.\<close>

fun process_stream_response ::
  "stream_item list \<Rightarrow> int \<Rightarrow> limiter \<Rightarrow> event list \<times> stream_end \<times> limiter" where
  "process_stream_response [] estimated l = ([], Exhausted, l)"
| "process_stream_response (Raise # rest) estimated l = ([], Raised, l)"
| "process_stream_response (Close # rest) estimated l = ([], Closed, l)"
| "process_stream_response (Next_event ev # rest) estimated l =
     (case process_stream_response rest estimated (observe_event ev estimated l) of
        (evs, e, l') \<Rightarrow> (ev # evs, e, l'))"

definition limiter_after :: "event list \<times> stream_end \<times> limiter \<Rightarrow> limiter" where
  "limiter_after r = snd (snd r)"

text \<open>The usages carried by the terminal events that the wrapper gets to see: those
  before the first \<open>Raise\<close> or \<open>Close\<close>.\<close>

fun observed_usages :: "stream_item list \<Rightarrow> int list" where
  "observed_usages [] = []"
| "observed_usages (Raise # rest) = []"
| "observed_usages (Close # rest) = []"
| "observed_usages (Next_event (Event None) # rest) = observed_usages rest"
| "observed_usages (Next_event (Event (Some data)) # rest) =
     (if event_type data = ''conversation.response.done''
      then extract_usage data # observed_usages rest
      else observed_usages rest)"

fun refund_all :: "int \<Rightarrow> int list \<Rightarrow> limiter \<Rightarrow> limiter" where
  "refund_all estimated [] l = l"
| "refund_all estimated (a # as) l = refund_all estimated as (refund_tokens estimated a l)"

subsection \<open>Sequences of operations on one limiter\<close>

datatype op =
    Refill_request
  | Refill_token
  | Acquire real real
  | Refund int int
  | Get_wait_time real real
  | Tick real

fun apply_op :: "op \<Rightarrow> limiter \<Rightarrow> py_error + limiter" where
  "apply_op Refill_request l = Inr (l \<lparr> request_bucket := refill (clock l) (request_bucket l) \<rparr>)"
| "apply_op Refill_token l = Inr (l \<lparr> token_bucket := refill (clock l) (token_bucket l) \<rparr>)"
| "apply_op (Acquire r k) l =
     (case acquire r k l of Inl e \<Rightarrow> Inl e | Inr (w, l') \<Rightarrow> Inr l')"
| "apply_op (Refund e a) l = Inr (refund_tokens e a l)"
| "apply_op (Get_wait_time r k) l =
     (case get_wait_time r k l of Inl e \<Rightarrow> Inl e | Inr (w, l') \<Rightarrow> Inr l')"
| "apply_op (Tick d) l = Inr (l \<lparr> clock := clock l + d \<rparr>)"

fun run :: "op list \<Rightarrow> limiter \<Rightarrow> py_error + limiter" where
  "run [] l = Inr l"
| "run (x # xs) l = (case apply_op x l of Inl e \<Rightarrow> Inl e | Inr l' \<Rightarrow> run xs l')"






subsection \<open>The states of the three-call scenario\<close>

definition scenario_l0 :: limiter where
  "scenario_l0 =
     \<lparr> request_bucket = \<lparr>available = 2, max_tokens = 2, refill_rate = 2, last_update = 0\<rparr>,
       token_bucket = \<lparr>available = 120, max_tokens = 120, refill_rate = 2, last_update = 0\<rparr>,
       clock = 0 \<rparr>"

definition scenario_l1 :: limiter where
  "scenario_l1 =
     \<lparr> request_bucket = \<lparr>available = 1, max_tokens = 2, refill_rate = 2, last_update = 0\<rparr>,
       token_bucket = \<lparr>available = 70, max_tokens = 120, refill_rate = 2, last_update = 0\<rparr>,
       clock = 0 \<rparr>"

definition scenario_l2 :: limiter where
  "scenario_l2 =
     \<lparr> request_bucket = \<lparr>available = 0, max_tokens = 2, refill_rate = 2, last_update = 0\<rparr>,
       token_bucket = \<lparr>available = 20, max_tokens = 120, refill_rate = 2, last_update = 0\<rparr>,
       clock = 0 \<rparr>"

definition scenario_l2_waited :: limiter where
  "scenario_l2_waited =
     \<lparr> request_bucket = \<lparr>available = 0, max_tokens = 2, refill_rate = 2, last_update = 1 / 2\<rparr>,
       token_bucket = \<lparr>available = 21, max_tokens = 120, refill_rate = 2, last_update = 1 / 2\<rparr>,
       clock = 1 / 2 \<rparr>"

definition scenario_l3 :: limiter where
  "scenario_l3 =
     \<lparr> request_bucket = \<lparr>available = 0, max_tokens = 2, refill_rate = 2, last_update = 1 / 2\<rparr>,
       token_bucket = \<lparr>available = 0, max_tokens = 120, refill_rate = 2, last_update = 15\<rparr>,
       clock = 15 \<rparr>"

subsection \<open>config.py and the construction of the client's limiters\<close>

record RatelimitConfig =
  api_key :: "string option"
  requests_per_second :: real
  tokens_per_minute :: real
  max_retries :: int
  base_delay :: real
  max_delay :: real
  timeout :: real

text \<open>\<^verbatim>\<open>RatelimitConfig.__post_init__\<close>; \<open>env\<close> is the value of the environment variable
  \<^verbatim>\<open>MISTRAL_API_KEY\<close>, if set. The tests are those of the code. On \<open>real\<close> a
  parameter that passes \<open>x \<le> 0\<close> is positive; in the code a NaN passes it too, so
  nothing below concludes that an accepted parameter is positive.\<close>

definition RatelimitConfig_post_init ::
  "string option \<Rightarrow> RatelimitConfig \<Rightarrow> py_error + RatelimitConfig" where
  "RatelimitConfig_post_init env cfg0 =
     (let cfg = (if api_key cfg0 = None then cfg0 \<lparr> api_key := env \<rparr> else cfg0) in
      if api_key cfg = None then
        Inl (ValueError ''api_key must be provided either directly or via MISTRAL_API_KEY environment variable'')
      else if requests_per_second cfg \<le> 0 then
        Inl (ValueError ''requests_per_second must be positive'')
      else if tokens_per_minute cfg \<le> 0 then
        Inl (ValueError ''tokens_per_minute must be positive'')
      else if max_retries cfg < 0 then
        Inl (ValueError ''max_retries must be non-negative'')
      else if base_delay cfg \<le> 0 then
        Inl (ValueError ''base_delay must be positive'')
      else if max_delay cfg \<le> 0 then
        Inl (ValueError ''max_delay must be positive'')
      else if timeout cfg \<le> 0 then
        Inl (ValueError ''timeout must be positive'')
      else Inr cfg)"

text \<open>The two limiters that \<^verbatim>\<open>MistralRatelimitClient.__init__\<close> builds (blocking,
  suspending). It is handed a configuration object that exists already and reads the two
  fields again, without a check of its own. The token counter and the SDK client built
  beside the limiters are left out.\<close>

definition client_limiters :: "RatelimitConfig \<Rightarrow> real \<Rightarrow> py_error + (limiter \<times> limiter)" where
  "client_limiters config now =
     (case RateLimiter_init (requests_per_second config) (tokens_per_minute config) now of
        Inl e \<Rightarrow> Inl e
      | Inr rl \<Rightarrow>
          (case AsyncRateLimiter_init (requests_per_second config) (tokens_per_minute config) now of
             Inl e \<Rightarrow> Inl e
           | Inr al \<Rightarrow> Inr (rl, al)))"

subsection \<open>token\_counter.py and the estimate of client.py\<close>

text \<open>The tiktoken encoding is a parameter. \<^verbatim>\<open>encode_ordinary\<close> never fails;
  \<^verbatim>\<open>encode\<close> may refuse a text (tiktoken raises on special tokens).\<close>

record encoding =
  encode_ordinary :: "string \<Rightarrow> nat list"
  encode :: "string \<Rightarrow> py_error + nat list"

text \<open>Payloads. A part of a multimodal content list is a dictionary with optional keys
  \<^verbatim>\<open>type\<close> and \<^verbatim>\<open>text\<close>, or something else. A message is a dictionary with an
  optional key \<^verbatim>\<open>content\<close> and an optional \<^verbatim>\<open>name\<close>; the key \<^verbatim>\<open>role\<close> is never
  read.\<close>

datatype content_item = Item_dict "string option" "string option" | Item_other

datatype content = Content_str string | Content_list "content_item list" | Content_other

record message =
  msg_content :: "content option"
  msg_name :: "string option"

datatype input_elem = Elem_str string | Elem_dict message | Elem_other

datatype inputs = In_str string | In_list "input_elem list" | In_dict message | In_other

text \<open>\<^verbatim>\<open>message.get("content", "")\<close>.\<close>

definition get_content :: "message \<Rightarrow> content" where
  "get_content m = (case msg_content m of None \<Rightarrow> Content_str [] | Some c \<Rightarrow> c)"

text \<open>\<^verbatim>\<open>message.get("name")\<close> as a condition.\<close>

definition name_truthy :: "message \<Rightarrow> bool" where
  "name_truthy m = (case msg_name m of None \<Rightarrow> False | Some n \<Rightarrow> n \<noteq> [])"

text \<open>The inner loop of \<^verbatim>\<open>count_messages\<close> over the parts of a content list. The
  branch for a text part calls \<^verbatim>\<open>self._encoding.encodeordinary\<close>, a method that the
  encoding does not have: the attribute lookup raises before anything is added.\<close>

fun count_items :: "content_item list \<Rightarrow> int \<Rightarrow> py_error + int" where
  "count_items [] total_tokens = Inr total_tokens"
| "count_items (Item_dict ty tx # rest) total_tokens =
     (if ty = Some ''text'' then Inl (AttributeError ''encodeordinary'')
      else if ty = Some ''image_url'' then count_items rest (total_tokens + 85)
      else count_items rest total_tokens)"
| "count_items (Item_other # rest) total_tokens = count_items rest total_tokens"

text \<open>The outer loop. An element that is not a dictionary has no method \<^verbatim>\<open>get\<close>.\<close>

fun count_loop :: "encoding \<Rightarrow> input_elem list \<Rightarrow> int \<Rightarrow> py_error + int" where
  "count_loop enc [] total_tokens = Inr total_tokens"
| "count_loop enc (Elem_dict m # rest) total_tokens =
     (case get_content m of
        Content_str s \<Rightarrow>
          count_loop enc rest
            (total_tokens + int (length (encode_ordinary enc s)) + (if name_truthy m then 1 else 0))
      | Content_list items \<Rightarrow>
          (case count_items items total_tokens of
             Inl e \<Rightarrow> Inl e
           | Inr t \<Rightarrow> count_loop enc rest t)
      | Content_other \<Rightarrow> count_loop enc rest total_tokens)"
| "count_loop enc (_ # rest) total_tokens = Inl (AttributeError ''get'')"

definition count_messages :: "encoding \<Rightarrow> input_elem list \<Rightarrow> py_error + int" where
  "count_messages enc messages =
     (if messages = [] then Inr 0
      else let tokens_per_message = 4;
               total_tokens = tokens_per_message * int (length messages)
           in (case count_loop enc messages total_tokens of
                 Inl e \<Rightarrow> Inl e
               | Inr t \<Rightarrow> Inr (t + 2)))"

definition count_text :: "encoding \<Rightarrow> string \<Rightarrow> py_error + int" where
  "count_text enc text = (case encode enc text of Inl e \<Rightarrow> Inl e | Inr ts \<Rightarrow> Inr (int (length ts)))"

text \<open>The loop of \<^verbatim>\<open>_estimate_tokens\<close> over a list that is not a list of messages.\<close>

fun estimate_list :: "encoding \<Rightarrow> input_elem list \<Rightarrow> int \<Rightarrow> py_error + int" where
  "estimate_list enc [] tokens = Inr tokens"
| "estimate_list enc (Elem_str s # rest) tokens =
     (case count_text enc s of Inl e \<Rightarrow> Inl e | Inr n \<Rightarrow> estimate_list enc rest (tokens + n))"
| "estimate_list enc (Elem_dict m # rest) tokens =
     (case get_content m of
        Content_str s \<Rightarrow>
          (case count_text enc s of Inl e \<Rightarrow> Inl e | Inr n \<Rightarrow> estimate_list enc rest (tokens + n))
      | _ \<Rightarrow> estimate_list enc rest tokens)"
| "estimate_list enc (Elem_other # rest) tokens = estimate_list enc rest tokens"

text \<open>\<^verbatim>\<open>"content" in inputs[0]\<close> for a first element that is a dictionary.\<close>

fun is_message_list :: "input_elem list \<Rightarrow> bool" where
  "is_message_list (Elem_dict m # rest) = (msg_content m \<noteq> None)"
| "is_message_list _ = False"

fun estimate_tokens :: "encoding \<Rightarrow> inputs \<Rightarrow> py_error + int" where
  "estimate_tokens enc (In_str s) = count_text enc s"
| "estimate_tokens enc (In_list xs) =
     (if is_message_list xs then count_messages enc xs else estimate_list enc xs 0)"
| "estimate_tokens enc (In_dict m) =
     (case get_content m of Content_str s \<Rightarrow> count_text enc s | _ \<Rightarrow> Inr 100)"
| "estimate_tokens enc In_other = Inr 100"

text \<open>A message whose content is a string (or absent, which reads as the empty
  string).\<close>

fun plain_text :: "input_elem \<Rightarrow> bool" where
  "plain_text (Elem_dict m) = (case get_content m of Content_str s \<Rightarrow> True | _ \<Rightarrow> False)"
| "plain_text _ = False"

text \<open>An encoding for evaluating examples: one token per character.\<close>

definition char_encoding :: encoding where
  "char_encoding = \<lparr> encode_ordinary = map of_char, encode = (\<lambda>s. Inr (map of_char s)) \<rparr>"

text \<open>Parts of a content list: not a text part; an image.\<close>

fun no_text_part :: "content_item \<Rightarrow> bool" where
  "no_text_part (Item_dict ty tx) = (ty \<noteq> Some ''text'')"
| "no_text_part Item_other = True"

fun is_image :: "content_item \<Rightarrow> bool" where
  "is_image (Item_dict ty tx) = (ty = Some ''image_url'')"
| "is_image Item_other = False"

subsection \<open>States and events of the refund scenarios\<close>

text \<open>The limiter of the three-call scenario after two reservations of \<open>50\<close> tokens
  taken \<open>60\<close> seconds apart and one refund of \<open>40\<close>: the state that
  \<open>[Acquire 1 50, Tick 60, Acquire 1 50, Refund 50 10]\<close> reaches from \<open>scenario_l0\<close>.\<close>

definition interleaved_l :: limiter where
  "interleaved_l =
     \<lparr> request_bucket = \<lparr>available = 1, max_tokens = 2, refill_rate = 2, last_update = 60\<rparr>,
       token_bucket = \<lparr>available = 110, max_tokens = 120, refill_rate = 2, last_update = 60\<rparr>,
       clock = 60 \<rparr>"

definition interleaved_l' :: limiter where
  "interleaved_l' =
     \<lparr> request_bucket = \<lparr>available = 1, max_tokens = 2, refill_rate = 2, last_update = 60\<rparr>,
       token_bucket = \<lparr>available = 150, max_tokens = 120, refill_rate = 2, last_update = 60\<rparr>,
       clock = 60 \<rparr>"

text \<open>The state \<open>interleaved_l'\<close> after a preview: the token bucket is back at its
  capacity.\<close>

definition interleaved_clamped :: limiter where
  "interleaved_clamped =
     \<lparr> request_bucket = \<lparr>available = 1, max_tokens = 2, refill_rate = 2, last_update = 60\<rparr>,
       token_bucket = \<lparr>available = 120, max_tokens = 120, refill_rate = 2, last_update = 60\<rparr>,
       clock = 60 \<rparr>"

text \<open>The state \<open>scenario_l2\<close> five seconds later, and the same after a preview.\<close>

definition scenario_l2_later :: limiter where
  "scenario_l2_later =
     \<lparr> request_bucket = \<lparr>available = 0, max_tokens = 2, refill_rate = 2, last_update = 0\<rparr>,
       token_bucket = \<lparr>available = 20, max_tokens = 120, refill_rate = 2, last_update = 0\<rparr>,
       clock = 5 \<rparr>"

definition scenario_l2_previewed :: limiter where
  "scenario_l2_previewed =
     \<lparr> request_bucket = \<lparr>available = 2, max_tokens = 2, refill_rate = 2, last_update = 5\<rparr>,
       token_bucket = \<lparr>available = 30, max_tokens = 120, refill_rate = 2, last_update = 5\<rparr>,
       clock = 5 \<rparr>"

text \<open>The limiter of the three-call scenario after \<open>acquire 1 80\<close>.\<close>

definition scenario_l80 :: limiter where
  "scenario_l80 =
     \<lparr> request_bucket = \<lparr>available = 1, max_tokens = 2, refill_rate = 2, last_update = 0\<rparr>,
       token_bucket = \<lparr>available = 40, max_tokens = 120, refill_rate = 2, last_update = 0\<rparr>,
       clock = 0 \<rparr>"

definition delta_event :: event where
  "delta_event =
     Event (Some (Object \<lparr>obj_type = Some ''message.output.delta'', obj_usage = None\<rparr>))"

definition done_event :: "int \<Rightarrow> event" where
  "done_event n =
     Event (Some (Object \<lparr>obj_type = Some ''conversation.response.done'',
                          obj_usage = Some (Some n)\<rparr>))"

subsection \<open>The limiter that construction is specified to produce\<close>

text \<open>Both buckets full; the request bucket with capacity and refill rate \<open>rps\<close>, the
  token bucket with capacity \<open>tpm\<close> and refill rate \<open>tpm / 60\<close>.\<close>

definition full_limiter :: "real \<Rightarrow> real \<Rightarrow> real \<Rightarrow> limiter" where
  "full_limiter rps tpm now =
     \<lparr> request_bucket = \<lparr>available = rps, max_tokens = rps, refill_rate = rps, last_update = now\<rparr>,
       token_bucket = \<lparr>available = tpm, max_tokens = tpm, refill_rate = tpm / 60, last_update = now\<rparr>,
       clock = now \<rparr>"

definition cfg_zero :: RatelimitConfig where
  "cfg_zero = \<lparr> api_key = Some ''key'', requests_per_second = 0, tokens_per_minute = 120,
                max_retries = 3, base_delay = 1, max_delay = 32, timeout = 60 \<rparr>"

section \<open>Properties\<close>

subsection \<open>Facts about refill\<close>

lemma refill_fields [simp]:
  "max_tokens (refill now b) = max_tokens b"
  "refill_rate (refill now b) = refill_rate b"
  "last_update (refill now b) = now"
  by (simp_all add: refill_def Let_def)

lemma refill_available:
  "available (refill now b) = min (max_tokens b) (available b + (now - last_update b) * refill_rate b)"
  by (simp add: refill_def Let_def)

lemma refill_le_capacity: "available (refill now b) \<le> max_tokens b"
  by (simp add: refill_available)

lemma refill_mono:
  assumes "available b \<le> max_tokens b" and "last_update b \<le> now" and "0 \<le> refill_rate b"
  shows "available b \<le> available (refill now b)"
proof -
  have "0 \<le> (now - last_update b) * refill_rate b"
    using assms by simp
  with assms show ?thesis by (simp add: refill_available)
qed

lemma refill_nonneg:
  assumes "0 \<le> available b" and "0 \<le> max_tokens b" and "last_update b \<le> now"
    and "0 \<le> refill_rate b"
  shows "0 \<le> available (refill now b)"
proof -
  have "0 \<le> (now - last_update b) * refill_rate b"
    using assms by simp
  with assms show ?thesis by (simp add: refill_available)
qed

text \<open>Every bucket that a constructor builds has \<open>refill_rate = max_tokens\<close> or
  \<open>refill_rate = max_tokens / 60\<close>, so a non-negative capacity forces a non-negative
  refill rate.\<close>

lemma init_bucket_rates:
  assumes "RateLimiter_init rps tpm now = Inr l"
  shows "refill_rate (request_bucket l) = max_tokens (request_bucket l)"
    and "refill_rate (token_bucket l) = max_tokens (token_bucket l) / 60"
  using assms by (auto simp: RateLimiter_init_def Let_def)

text \<open>Claim C8. For a bucket with \<open>0 \<le> available \<le> capacity\<close> (and the non-negative
  refill rate every such bucket of a limiter has) and an elapsed time
  \<open>t = now - last_update \<ge> 0\<close>, refill sets \<open>available\<close> to
  \<open>min capacity (available + t * refill_rate)\<close> and \<open>last_update\<close> to the clock
  reading; the new \<open>available\<close> is not negative, not above the capacity and not below
  the old value.\<close>

theorem refill_correct:
  assumes "0 \<le> available b" and "available b \<le> max_tokens b"
    and "0 \<le> refill_rate b" and "t = now - last_update b" and "0 \<le> t"
  shows "available (refill now b) = min (max_tokens b) (available b + t * refill_rate b)
       \<and> last_update (refill now b) = now
       \<and> 0 \<le> available (refill now b)
       \<and> available (refill now b) \<le> max_tokens b
       \<and> available b \<le> available (refill now b)"
proof -
  have grow: "0 \<le> t * refill_rate b"
    using assms by simp
  have "available (refill now b) = min (max_tokens b) (available b + t * refill_rate b)"
    using assms by (simp add: refill_available)
  with grow assms show ?thesis by simp
qed

theorem refill_correct_witness:
  "available (refill 3 \<lparr>available = 1, max_tokens = 5, refill_rate = 2, last_update = 1\<rparr>) = 5
   \<and> last_update (refill 3 \<lparr>available = 1, max_tokens = 5, refill_rate = 2, last_update = 1\<rparr>) = 3"
  using refill_correct [of "\<lparr>available = 1, max_tokens = 5, refill_rate = 2, last_update = 1\<rparr>" 2 3]
  by (simp add: refill_available)

subsection \<open>The two-branch acquire\<close>

lemma refill_again:
  "available (refill now (refill now b)) = available (refill now b)"
  using refill_le_capacity [of now b] by (simp add: refill_available [of now "refill now b"])

lemma refill_after_wait:
  assumes "refill_rate b \<noteq> 0"
  shows "available (refill (now + (cost - available (refill now b)) / refill_rate b) (refill now b))
         = min (max_tokens b) cost"
  using assms
  by (simp add: refill_available [of _ "refill now b"])

lemma spec_wait_nonneg:
  assumes "0 < refill_rate b"
  shows "0 \<le> fst (spec_bucket_acquire now cost b)"
proof (cases "cost \<le> available (refill now b)")
  case True
  then show ?thesis by (simp add: spec_bucket_acquire_def Let_def)
next
  case False
  then have "0 \<le> (cost - available (refill now b)) / refill_rate (refill now b)"
    using assms by (intro divide_nonneg_pos) simp_all
  with False show ?thesis by (simp add: spec_bucket_acquire_def Let_def)
qed

lemma acquire_request_spec:
  assumes "0 < refill_rate (request_bucket l)"
  shows "\<exists>w l1. acquire_request c l = Inr (w, l1)
     \<and> w = fst (spec_bucket_acquire (clock l) c (request_bucket l))
     \<and> wait_request w c l1 =
         l \<lparr> request_bucket := snd (spec_bucket_acquire (clock l) c (request_bucket l)),
              clock := clock l + w \<rparr>"
  using assms
  by (auto simp: acquire_request_def wait_request_def spec_bucket_acquire_def Let_def
        sleep_def debit_def split: if_splits)

lemma acquire_token_spec:
  assumes "0 < refill_rate (token_bucket l)"
  shows "\<exists>w l1. acquire_token c l = Inr (w, l1)
     \<and> w = fst (spec_bucket_acquire (clock l) c (token_bucket l))
     \<and> wait_token w c l1 =
         l \<lparr> token_bucket := snd (spec_bucket_acquire (clock l) c (token_bucket l)),
              clock := clock l + w \<rparr>"
  using assms
  by (auto simp: acquire_token_def wait_token_def spec_bucket_acquire_def Let_def
        sleep_def debit_def split: if_splits)

text \<open>The two branches of the specification's algorithm, spelled out.\<close>

lemma spec_bucket_acquire_cases:
  assumes "0 < refill_rate b"
  shows "(cost \<le> available (refill now b) \<longrightarrow>
            spec_bucket_acquire now cost b = (0, debit cost (refill now b)))
       \<and> (available (refill now b) < cost \<longrightarrow>
            fst (spec_bucket_acquire now cost b) = (cost - available (refill now b)) / refill_rate b
          \<and> available (snd (spec_bucket_acquire now cost b)) = min (max_tokens b) cost - cost)"
proof -
  have "refill_rate b \<noteq> 0" using assms by simp
  then show ?thesis
    by (auto simp: spec_bucket_acquire_def Let_def debit_def refill_after_wait)
qed

lemma spec_bucket_debit:
  assumes "0 < refill_rate b"
  shows "available (snd (spec_bucket_acquire now cost b)) =
     available (refill (now + fst (spec_bucket_acquire now cost b)) (refill now b)) - cost"
  using assms by (auto simp: spec_bucket_acquire_def Let_def debit_def refill_again)

lemma acquire_result:
  assumes "0 < refill_rate (request_bucket l)" and "0 < refill_rate (token_bucket l)"
    and "(w1, rb) = spec_bucket_acquire (clock l) request_tokens (request_bucket l)"
    and "(w2, tb) = spec_bucket_acquire (clock l + w1) token_count (token_bucket l)"
  shows "acquire request_tokens token_count l =
           Inr (w1 + w2, l \<lparr> request_bucket := rb, token_bucket := tb, clock := clock l + w1 + w2 \<rparr>)"
proof -
  obtain w l1 where a1: "acquire_request request_tokens l = Inr (w, l1)"
    and w: "w = fst (spec_bucket_acquire (clock l) request_tokens (request_bucket l))"
    and l2: "wait_request w request_tokens l1 =
         l \<lparr> request_bucket := snd (spec_bucket_acquire (clock l) request_tokens (request_bucket l)),
              clock := clock l + w \<rparr>"
    using acquire_request_spec [OF assms(1)] by blast
  have w1: "w = w1"
    and rb: "snd (spec_bucket_acquire (clock l) request_tokens (request_bucket l)) = rb"
    using w assms(3) by (metis fst_conv, metis snd_conv)
  define l2 where "l2 = l \<lparr> request_bucket := rb, clock := clock l + w1 \<rparr>"
  have l2eq: "wait_request w request_tokens l1 = l2"
    using l2 w1 rb by (simp add: l2_def)
  have rate2: "0 < refill_rate (token_bucket l2)"
    using assms(2) by (simp add: l2_def)
  obtain w' l3 where a2: "acquire_token token_count l2 = Inr (w', l3)"
    and w': "w' = fst (spec_bucket_acquire (clock l2) token_count (token_bucket l2))"
    and l4: "wait_token w' token_count l3 =
         l2 \<lparr> token_bucket := snd (spec_bucket_acquire (clock l2) token_count (token_bucket l2)),
              clock := clock l2 + w' \<rparr>"
    using acquire_token_spec [OF rate2] by blast
  have sp2: "spec_bucket_acquire (clock l2) token_count (token_bucket l2) = (w2, tb)"
    using assms(4) by (simp add: l2_def)
  have w2: "w' = w2" using w' sp2 by simp
  have l4eq: "wait_token w' token_count l3 =
      l \<lparr> request_bucket := rb, token_bucket := tb, clock := clock l + w1 + w2 \<rparr>"
    using l4 sp2 w2 by (simp add: l2_def)
  show ?thesis
    using a1 a2 l2eq l4eq w1 w2 by (simp add: acquire_def Let_def)
qed

text \<open>Claim C3. On a limiter whose two refill rates are positive, \<open>acquire\<close> returns
  (it raises nothing), and what it returns is the two-branch algorithm of the
  specification run on the request bucket at the clock reading and then on the token
  bucket at the clock reading after the first wait: the result is the sum \<open>w1 + w2\<close>
  of the two waits, both non-negative, and each bucket ends at the value of its last
  refill minus its cost.\<close>

theorem acquire_two_branch:
  assumes "0 < refill_rate (request_bucket l)" and "0 < refill_rate (token_bucket l)"
    and "(w1, rb) = spec_bucket_acquire (clock l) request_tokens (request_bucket l)"
    and "(w2, tb) = spec_bucket_acquire (clock l + w1) token_count (token_bucket l)"
  shows "acquire request_tokens token_count l =
           Inr (w1 + w2, l \<lparr> request_bucket := rb, token_bucket := tb, clock := clock l + w1 + w2 \<rparr>)
         \<and> 0 \<le> w1 \<and> 0 \<le> w2 \<and> 0 \<le> w1 + w2
         \<and> available rb =
             available (refill (clock l + w1) (refill (clock l) (request_bucket l))) - request_tokens
         \<and> available tb =
             available (refill (clock l + w1 + w2) (refill (clock l + w1) (token_bucket l))) - token_count"
proof -
  have res: "acquire request_tokens token_count l =
           Inr (w1 + w2, l \<lparr> request_bucket := rb, token_bucket := tb, clock := clock l + w1 + w2 \<rparr>)"
    using assms by (rule acquire_result)
  have n1: "0 \<le> w1"
    using spec_wait_nonneg [OF assms(1), of "clock l" request_tokens] assms(3)
    by (metis fst_conv)
  have n2: "0 \<le> w2"
    using spec_wait_nonneg [OF assms(2), of "clock l + w1" token_count] assms(4)
    by (metis fst_conv)
  have d1: "available rb =
      available (refill (clock l + w1) (refill (clock l) (request_bucket l))) - request_tokens"
    using spec_bucket_debit [OF assms(1), of "clock l" request_tokens] assms(3)
    by (metis fst_conv snd_conv)
  have d2: "available tb =
      available (refill (clock l + w1 + w2) (refill (clock l + w1) (token_bucket l))) - token_count"
    using spec_bucket_debit [OF assms(2), of "clock l + w1" token_count] assms(4)
    by (metis fst_conv snd_conv)
  show ?thesis using res n1 n2 d1 d2 by simp
qed

theorem acquire_two_branch_witness:
  "acquire 1 50 scenario_l2 = Inr (1 / 2 + 29 / 2, scenario_l3)"
proof -
  have r: "0 < refill_rate (request_bucket scenario_l2)" by (simp add: scenario_l2_def)
  have t: "0 < refill_rate (token_bucket scenario_l2)" by (simp add: scenario_l2_def)
  have s1: "(1 / 2, \<lparr>available = 0, max_tokens = 2, refill_rate = 2, last_update = 1 / 2\<rparr>)
      = spec_bucket_acquire (clock scenario_l2) 1 (request_bucket scenario_l2)"
    by (simp add: spec_bucket_acquire_def scenario_l2_def refill_def debit_def Let_def)
  have s2: "(29 / 2, \<lparr>available = 0, max_tokens = 120, refill_rate = 2, last_update = 15\<rparr>)
      = spec_bucket_acquire (clock scenario_l2 + 1 / 2) 50 (token_bucket scenario_l2)"
    by (simp add: spec_bucket_acquire_def scenario_l2_def refill_def debit_def Let_def)
  show ?thesis
    using acquire_two_branch [OF r t s1 s2] by (simp add: scenario_l2_def scenario_l3_def)
qed

text \<open>The suspending limiter computes the same as the blocking one.\<close>

lemma async_acquire_eq:
  assumes "0 < refill_rate (request_bucket l)" and "0 < refill_rate (token_bucket l)"
  shows "async_acquire r k l = acquire r k l"
  using assms
  by (auto simp: async_acquire_def acquire_def acquire_request_def acquire_token_def
        wait_request_def wait_token_def async_sleep_def sleep_def Let_def
        divide_le_0_iff zero_less_divide_iff not_le)

subsection \<open>The preview\<close>

lemma get_wait_time_result:
  assumes "0 < refill_rate (request_bucket l)" and "0 < refill_rate (token_bucket l)"
  shows "get_wait_time r k l =
           Inr (max (bucket_wait r (refill (clock l) (request_bucket l)))
                    (bucket_wait k (refill (clock l) (token_bucket l))),
                l \<lparr> request_bucket := refill (clock l) (request_bucket l),
                    token_bucket := refill (clock l) (token_bucket l) \<rparr>)"
  using assms by (simp add: get_wait_time_def bucket_wait_def Let_def not_less)

lemma refill_record:
  "refill now b = b \<lparr> available := min (max_tokens b) (available b + (now - last_update b) * refill_rate b),
                      last_update := now \<rparr>"
  by (simp add: refill_def Let_def)

text \<open>Claim C5, as the code has it. On a limiter whose two refill rates are positive,
  \<open>get_wait_time\<close> refills both buckets, that is, sets \<open>available\<close> to
  \<open>min capacity (available + (clock - last_update) * refill_rate)\<close> and \<open>last_update\<close>
  to the clock reading; it returns the maximum of the waits of the two refilled buckets
  (\<open>0\<close> for a bucket that has its cost, \<open>(cost - available) / refill_rate\<close> otherwise);
  and it changes nothing else: no cost is subtracted. A bucket that was at most at
  capacity, with a clock not behind its last update, has not less available than
  before; a bucket above capacity is lowered to its capacity.\<close>

theorem get_wait_time_preview:
  assumes "0 < refill_rate (request_bucket l)" and "0 < refill_rate (token_bucket l)"
    and "ra = min (max_tokens (request_bucket l))
                  (available (request_bucket l)
                     + (clock l - last_update (request_bucket l)) * refill_rate (request_bucket l))"
    and "ta = min (max_tokens (token_bucket l))
                  (available (token_bucket l)
                     + (clock l - last_update (token_bucket l)) * refill_rate (token_bucket l))"
  shows "get_wait_time request_tokens token_count l =
           Inr (max (if request_tokens \<le> ra then 0
                     else (request_tokens - ra) / refill_rate (request_bucket l))
                    (if token_count \<le> ta then 0
                     else (token_count - ta) / refill_rate (token_bucket l)),
                l \<lparr> request_bucket := (request_bucket l) \<lparr> available := ra, last_update := clock l \<rparr>,
                    token_bucket := (token_bucket l) \<lparr> available := ta, last_update := clock l \<rparr> \<rparr>)
       \<and> (available (request_bucket l) \<le> max_tokens (request_bucket l)
            \<and> last_update (request_bucket l) \<le> clock l
            \<longrightarrow> available (request_bucket l) \<le> ra)
       \<and> (available (token_bucket l) \<le> max_tokens (token_bucket l)
            \<and> last_update (token_bucket l) \<le> clock l
            \<longrightarrow> available (token_bucket l) \<le> ta)
       \<and> (max_tokens (token_bucket l) < available (token_bucket l)
            \<and> last_update (token_bucket l) \<le> clock l
            \<longrightarrow> ta = max_tokens (token_bucket l))"
proof -
  have rb: "refill (clock l) (request_bucket l)
      = (request_bucket l) \<lparr> available := ra, last_update := clock l \<rparr>"
    using assms(3) by (simp add: refill_record)
  have tb: "refill (clock l) (token_bucket l)
      = (token_bucket l) \<lparr> available := ta, last_update := clock l \<rparr>"
    using assms(4) by (simp add: refill_record)
  have res: "get_wait_time request_tokens token_count l =
           Inr (max (if request_tokens \<le> ra then 0
                     else (request_tokens - ra) / refill_rate (request_bucket l))
                    (if token_count \<le> ta then 0
                     else (token_count - ta) / refill_rate (token_bucket l)),
                l \<lparr> request_bucket := (request_bucket l) \<lparr> available := ra, last_update := clock l \<rparr>,
                    token_bucket := (token_bucket l) \<lparr> available := ta, last_update := clock l \<rparr> \<rparr>)"
    unfolding get_wait_time_result [OF assms(1,2)] rb tb by (simp add: bucket_wait_def)
  have ra: "ra = available (refill (clock l) (request_bucket l))"
    and ta: "ta = available (refill (clock l) (token_bucket l))"
    using assms(3,4) by (simp_all add: refill_available)
  have m1: "available (request_bucket l) \<le> ra"
    if "available (request_bucket l) \<le> max_tokens (request_bucket l)"
       "last_update (request_bucket l) \<le> clock l"
    unfolding ra using refill_mono [OF that] assms(1) by simp
  have m2: "available (token_bucket l) \<le> ta"
    if "available (token_bucket l) \<le> max_tokens (token_bucket l)"
       "last_update (token_bucket l) \<le> clock l"
    unfolding ta using refill_mono [OF that] assms(2) by simp
  have m3: "ta = max_tokens (token_bucket l)"
    if over: "max_tokens (token_bucket l) < available (token_bucket l)"
       and lu: "last_update (token_bucket l) \<le> clock l"
  proof -
    have "0 \<le> (clock l - last_update (token_bucket l)) * refill_rate (token_bucket l)"
      using lu assms(2) by simp
    with over show ?thesis using assms(4) by simp
  qed
  show ?thesis using res m1 m2 m3 by blast
qed

theorem get_wait_time_preview_witness:
  "get_wait_time 1 50 scenario_l2_later = Inr (10, scenario_l2_previewed)
   \<and> available (request_bucket scenario_l2_later) \<le> available (request_bucket scenario_l2_previewed)
   \<and> available (token_bucket scenario_l2_later) \<le> available (token_bucket scenario_l2_previewed)"
proof -
  have r: "0 < refill_rate (request_bucket scenario_l2_later)"
    by (simp add: scenario_l2_later_def)
  have t: "0 < refill_rate (token_bucket scenario_l2_later)"
    by (simp add: scenario_l2_later_def)
  have ra: "2 = min (max_tokens (request_bucket scenario_l2_later))
                  (available (request_bucket scenario_l2_later)
                     + (clock scenario_l2_later - last_update (request_bucket scenario_l2_later))
                       * refill_rate (request_bucket scenario_l2_later))"
    by (simp add: scenario_l2_later_def)
  have ta: "30 = min (max_tokens (token_bucket scenario_l2_later))
                  (available (token_bucket scenario_l2_later)
                     + (clock scenario_l2_later - last_update (token_bucket scenario_l2_later))
                       * refill_rate (token_bucket scenario_l2_later))"
    by (simp add: scenario_l2_later_def)
  show ?thesis
    using get_wait_time_preview [OF r t ra ta, of 1 50]
    by (simp add: scenario_l2_later_def scenario_l2_previewed_def)
qed

text \<open>Claim C5 as stated fails for a bucket above its capacity: in the state that two
  interleaved reservations and their refunds reach, with \<open>150\<close> tokens available in a
  bucket of capacity \<open>120\<close>, the preview leaves \<open>120\<close>.\<close>

theorem preview_lowers_counterexample:
  "run [Acquire 1 50, Tick 60, Acquire 1 50, Refund 50 10, Refund 50 10] scenario_l0
       = Inr interleaved_l'
   \<and> get_wait_time 1 1 interleaved_l' = Inr (0, interleaved_clamped)
   \<and> \<not> available (token_bucket interleaved_l') \<le> available (token_bucket interleaved_clamped)"
  by (simp add: get_wait_time_def acquire_def acquire_request_def acquire_token_def
        wait_request_def wait_token_def sleep_def refill_def Let_def refund_tokens_def
        scenario_l0_def interleaved_l'_def interleaved_clamped_def)

subsection \<open>The three-call scenario\<close>

text \<open>Claim C6. A limiter built with \<open>2\<close> requests per second and \<open>120\<close> tokens per
  minute at time \<open>0\<close> starts with \<open>2\<close> and \<open>120\<close> available. Three calls
  \<open>acquire 1 50\<close> in a row return \<open>0\<close>, \<open>0\<close> and \<open>15\<close>; the buckets hold \<open>1\<close> and
  \<open>70\<close> after the first call and \<open>0\<close> and \<open>20\<close> after the second; in the third call
  the request bucket asks for a wait of \<open>1/2\<close>, after which the token bucket holds
  \<open>21\<close> and asks for \<open>29/2\<close>.\<close>

theorem scenario_three_acquires:
  "RateLimiter_init 2 120 0 = Inr scenario_l0
   \<and> acquire 1 50 scenario_l0 = Inr (0, scenario_l1)
   \<and> available (request_bucket scenario_l1) = 1 \<and> available (token_bucket scenario_l1) = 70
   \<and> acquire 1 50 scenario_l1 = Inr (0, scenario_l2)
   \<and> available (request_bucket scenario_l2) = 0 \<and> available (token_bucket scenario_l2) = 20
   \<and> acquire_request 1 scenario_l2 = Inr (1 / 2, scenario_l2)
   \<and> acquire_token 50 (wait_request (1 / 2) 1 scenario_l2) = Inr (29 / 2, scenario_l2_waited)
   \<and> available (token_bucket scenario_l2_waited) = 21
   \<and> acquire 1 50 scenario_l2 = Inr (15, scenario_l3)"
  by (simp add: RateLimiter_init_def acquire_def acquire_request_def acquire_token_def
        wait_request_def wait_token_def sleep_def refill_def Let_def
        scenario_l0_def scenario_l1_def scenario_l2_def scenario_l2_waited_def scenario_l3_def)

subsection \<open>The token estimate\<close>

lemma count_loop_plain:
  assumes "\<forall>m \<in> set ms. plain_text m"
  shows "\<exists>t. count_loop enc ms tot = Inr t \<and> tot \<le> t"
  using assms
proof (induction ms arbitrary: tot)
  case Nil
  then show ?case by simp
next
  case (Cons m ms)
  then obtain d where d: "m = Elem_dict d" by (cases m) auto
  from Cons.prems d obtain s where s: "get_content d = Content_str s"
    by (auto split: content.splits)
  define tot' where
    "tot' = tot + int (length (encode_ordinary enc s)) + (if name_truthy d then 1 else 0)"
  have "\<exists>t. count_loop enc ms tot' = Inr t \<and> tot' \<le> t"
    using Cons by simp
  then obtain t where "count_loop enc ms tot' = Inr t" "tot' \<le> t" by blast
  moreover have "tot \<le> tot'" by (simp add: tot'_def)
  ultimately show ?case using d s by (auto simp: tot'_def split: if_splits)
qed

text \<open>Claim C10. \<open>count_messages\<close> of the empty list is \<open>0\<close>: neither the \<open>4\<close> per
  message nor the final \<open>2\<close> is added. For a non-empty list of messages whose content
  is a string it returns a number, at least \<open>4 * length + 2\<close>.\<close>

theorem count_messages_bounds:
  "count_messages enc [] = Inr 0
   \<and> (ms \<noteq> [] \<and> (\<forall>m \<in> set ms. plain_text m) \<longrightarrow>
        (\<exists>t. count_messages enc ms = Inr t \<and> 4 * int (length ms) + 2 \<le> t))"
proof -
  have e: "count_messages enc [] = Inr 0" by (simp add: count_messages_def)
  have ne: "\<exists>t. count_messages enc ms = Inr t \<and> 4 * int (length ms) + 2 \<le> t"
    if ne0: "ms \<noteq> []" and pl: "\<forall>m \<in> set ms. plain_text m"
  proof -
    obtain t where "count_loop enc ms (4 * int (length ms)) = Inr t" "4 * int (length ms) \<le> t"
      using count_loop_plain [OF pl] by blast
    with ne0 show ?thesis by (simp add: count_messages_def Let_def)
  qed
  show ?thesis using e ne by blast
qed

theorem count_messages_bounds_witness:
  "count_messages char_encoding
     [Elem_dict \<lparr>msg_content = Some (Content_str ''hi''), msg_name = None\<rparr>] = Inr 8"
  using count_messages_bounds [of char_encoding
     "[Elem_dict \<lparr>msg_content = Some (Content_str ''hi''), msg_name = None\<rparr>]"]
  by (simp add: count_messages_def get_content_def name_truthy_def char_encoding_def Let_def)

text \<open>A content list without text parts is counted: every \<^verbatim>\<open>image_url\<close> part adds
  \<open>85\<close>.\<close>

lemma count_items_images:
  assumes "\<forall>i \<in> set items. no_text_part i"
  shows "count_items items tot = Inr (tot + 85 * int (length (filter is_image items)))"
  using assms
proof (induction items arbitrary: tot)
  case Nil
  then show ?case by simp
next
  case (Cons i items)
  then show ?case by (cases i) auto
qed

text \<open>Claim C9 (the estimate is total on the stated payload shapes) fails on the code
  for a multimodal entry with a text part: whatever the encoding, the estimate of one
  message whose content is a text part followed by an image is the attribute error
  raised by the call of \<^verbatim>\<open>encodeordinary\<close>.\<close>

theorem estimate_tokens_text_part_raises:
  "estimate_tokens enc (In_list [Elem_dict \<lparr>msg_content = Some (Content_list
       [Item_dict (Some ''text'') (Some ''hi''), Item_dict (Some ''image_url'') None]),
       msg_name = None\<rparr>])
   = Inl (AttributeError ''encodeordinary'')"
  by (simp add: count_messages_def get_content_def Let_def)

subsection \<open>Refund\<close>





text \<open>The state \<open>interleaved_l\<close> is reached by the client: two streamed operations
  reserve \<open>50\<close> tokens each, \<open>60\<close> seconds apart, and the first one is refunded \<open>40\<close>.\<close>

lemma interleaved_l_reached:
  "run [Acquire 1 50, Tick 60, Acquire 1 50, Refund 50 10] scenario_l0 = Inr interleaved_l"
  by (simp add: acquire_def acquire_request_def acquire_token_def
        wait_request_def wait_token_def sleep_def refill_def Let_def refund_tokens_def
        scenario_l0_def interleaved_l_def)


subsection \<open>The stream wrapper\<close>

lemma process_stream_refunds:
  "limiter_after (process_stream_response s estimated l)
     = refund_all estimated (observed_usages s) l"
proof (induction s arbitrary: l)
  case Nil
  then show ?case by (simp add: limiter_after_def)
next
  case (Cons item s)
  show ?case
  proof (cases item)
    case (Next_event ev)
    obtain d where ev: "ev = Event d" by (cases ev)
    have step: "limiter_after (process_stream_response (item # s) estimated l)
        = limiter_after (process_stream_response s estimated (observe_event ev estimated l))"
      using Next_event by (simp add: limiter_after_def split: prod.splits)
    show ?thesis
      unfolding step Cons.IH using Next_event ev by (cases d) auto
  next
    case Raise
    then show ?thesis by (simp add: limiter_after_def)
  next
    case Close
    then show ?thesis by (simp add: limiter_after_def)
  qed
qed

text \<open>Claim C7. The limiter after the stream wrapper is the limiter before it with one
  refund per terminal event (type \<^verbatim>\<open>conversation.response.done\<close>) that the wrapper got
  to see, and nothing else. So a stream that raises or is closed before a terminal
  event leaves the limiter as the reservation left it; a stream with one terminal
  event carrying \<open>actual < estimated\<close> adds \<open>estimated - actual\<close> to the token bucket;
  with \<open>actual \<ge> estimated\<close> nothing changes.\<close>

theorem stream_refund_only_at_terminal:
  "limiter_after (process_stream_response s estimated l)
     = refund_all estimated (observed_usages s) l
   \<and> (observed_usages s = [] \<longrightarrow>
        limiter_after (process_stream_response s estimated l) = l)
   \<and> (observed_usages s = [actual] \<and> actual < estimated \<longrightarrow>
        available (token_bucket (limiter_after (process_stream_response s estimated l)))
          = available (token_bucket l) + real_of_int (estimated - actual))
   \<and> (observed_usages s = [actual] \<and> estimated \<le> actual \<longrightarrow>
        limiter_after (process_stream_response s estimated l) = l)"
  by (simp add: process_stream_refunds refund_tokens_def)

theorem stream_refund_only_at_terminal_witness:
  "acquire 1 80 scenario_l0 = Inr (0, scenario_l80)
   \<and> limiter_after (process_stream_response [Next_event delta_event, Raise, Next_event (done_event 30)]
                      80 scenario_l80) = scenario_l80
   \<and> available (token_bucket scenario_l80) = 120 - 80
   \<and> available (token_bucket (limiter_after
        (process_stream_response [Next_event delta_event, Next_event (done_event 30)] 80 scenario_l80)))
      = 40 + 50
   \<and> limiter_after (process_stream_response [Next_event (done_event 90)] 80 scenario_l80) = scenario_l80"
proof -
  have a: "acquire 1 80 scenario_l0 = Inr (0, scenario_l80)"
    by (simp add: acquire_def acquire_request_def acquire_token_def wait_request_def
          wait_token_def refill_def Let_def scenario_l0_def scenario_l80_def)
  have o1: "observed_usages [Next_event delta_event, Raise, Next_event (done_event 30)] = []"
    by (simp add: delta_event_def)
  have o2: "observed_usages [Next_event delta_event, Next_event (done_event 30)] = [30]"
    by (simp add: delta_event_def done_event_def)
  have o3: "observed_usages [Next_event (done_event 90)] = [90]"
    by (simp add: done_event_def)
  have w1: "limiter_after (process_stream_response
               [Next_event delta_event, Raise, Next_event (done_event 30)] 80 scenario_l80)
             = scenario_l80"
    using o1 stream_refund_only_at_terminal
        [of "[Next_event delta_event, Raise, Next_event (done_event 30)]" 80 scenario_l80 0]
    by blast
  have w2: "available (token_bucket (limiter_after
        (process_stream_response [Next_event delta_event, Next_event (done_event 30)] 80 scenario_l80)))
      = available (token_bucket scenario_l80) + real_of_int (80 - 30)"
    using o2 stream_refund_only_at_terminal
        [of "[Next_event delta_event, Next_event (done_event 30)]" 80 scenario_l80 30]
    by force
  have w3: "limiter_after (process_stream_response [Next_event (done_event 90)] 80 scenario_l80)
      = scenario_l80"
    using o3 stream_refund_only_at_terminal [of "[Next_event (done_event 90)]" 80 scenario_l80 90]
    by force
  have v: "available (token_bucket scenario_l80) = 40"
    by (simp add: scenario_l80_def)
  show ?thesis
    using a w1 w2 w3 v by simp
qed

subsection \<open>Construction\<close>

text \<open>The client builds its limiters from whatever the two fields of the configuration
  hold when it is constructed.\<close>

lemma client_limiters_unchecked:
  "client_limiters cfg now =
     Inr (full_limiter (requests_per_second cfg) (tokens_per_minute cfg) now,
          full_limiter (requests_per_second cfg) (tokens_per_minute cfg) now)"
  by (simp add: client_limiters_def RateLimiter_init_def AsyncRateLimiter_init_def
        full_limiter_def)

text \<open>Claim C4, as the code has it. The constructor of either limiter never fails: for
  all parameters, positive or not, it returns the limiter with both buckets full,
  request capacity and refill rate \<open>rps\<close>, token capacity \<open>tpm\<close> and token refill rate
  \<open>tpm / 60\<close>. The test of the parameters is in the construction of the configuration:
  with \<open>requests_per_second \<le> 0\<close> or \<open>tokens_per_minute \<le> 0\<close> it raises
  \<^verbatim>\<open>ValueError\<close>.\<close>

theorem limiter_construction_total:
  "RateLimiter_init rps tpm now = Inr (full_limiter rps tpm now)
   \<and> AsyncRateLimiter_init rps tpm now = Inr (full_limiter rps tpm now)
   \<and> (requests_per_second cfg \<le> 0 \<or> tokens_per_minute cfg \<le> 0 \<longrightarrow>
        (\<exists>msg. RatelimitConfig_post_init env cfg = Inl (ValueError msg)))"
proof -
  have a: "RateLimiter_init rps tpm now = Inr (full_limiter rps tpm now)"
    by (simp add: RateLimiter_init_def full_limiter_def)
  have b: "AsyncRateLimiter_init rps tpm now = Inr (full_limiter rps tpm now)"
    by (simp add: AsyncRateLimiter_init_def full_limiter_def)
  have c: "\<exists>msg. RatelimitConfig_post_init env cfg = Inl (ValueError msg)"
    if "requests_per_second cfg \<le> 0 \<or> tokens_per_minute cfg \<le> 0"
    using that by (auto simp: RatelimitConfig_post_init_def Let_def)
  show ?thesis using a b c by blast
qed

theorem limiter_construction_total_witness:
  "RateLimiter_init 2 120 0 = Inr scenario_l0
   \<and> AsyncRateLimiter_init 2 120 0 = Inr scenario_l0
   \<and> RatelimitConfig_post_init None cfg_zero
       = Inl (ValueError ''requests_per_second must be positive'')"
proof -
  have z: "requests_per_second cfg_zero \<le> 0 \<or> tokens_per_minute cfg_zero \<le> 0"
    by (simp add: cfg_zero_def)
  note t = limiter_construction_total [of 2 120 0 cfg_zero None]
  have f: "full_limiter 2 120 0 = scenario_l0"
    by (simp add: full_limiter_def scenario_l0_def)
  have e: "\<exists>msg. RatelimitConfig_post_init None cfg_zero = Inl (ValueError msg)"
    using t z by blast
  then have "RatelimitConfig_post_init None cfg_zero
      = Inl (ValueError ''requests_per_second must be positive'')"
    by (simp add: RatelimitConfig_post_init_def cfg_zero_def)
  with t f show ?thesis by simp
qed

text \<open>Claim C4 as stated fails: both constructors accept \<open>0\<close> requests per second and
  \<open>-60\<close> tokens per minute.\<close>

theorem limiter_init_no_check_counterexample:
  "RateLimiter_init 0 (-60) 0 =
     Inr \<lparr> request_bucket = \<lparr>available = 0, max_tokens = 0, refill_rate = 0, last_update = 0\<rparr>,
           token_bucket = \<lparr>available = -60, max_tokens = -60, refill_rate = -1, last_update = 0\<rparr>,
           clock = 0 \<rparr>
   \<and> AsyncRateLimiter_init 0 (-60) 0 =
     Inr \<lparr> request_bucket = \<lparr>available = 0, max_tokens = 0, refill_rate = 0, last_update = 0\<rparr>,
           token_bucket = \<lparr>available = -60, max_tokens = -60, refill_rate = -1, last_update = 0\<rparr>,
           clock = 0 \<rparr>"
  by (simp add: RateLimiter_init_def AsyncRateLimiter_init_def)

subsection \<open>The bounds on the reachable states\<close>















end
